theory Spec2Isabelle
  imports Complex_Main
begin

section \<open>Data model\<close>

text \<open>
  The exceptions raised by \<^verbatim>\<open>frappe.throw\<close>. Without an exception class the
  call raises the framework's validation error; the message is kept as the literal of the
  source (untranslated, placeholders not filled in). \<open>OtherException\<close> stands for any
  other exception a call into the framework may raise.
\<close>

datatype error =
    PermissionError string
  | DoesNotExistError string
  | ValidationError string
  | OtherException string

text \<open>
  A row of the child table \<^verbatim>\<open>required_documents\<close>. The fields \<^verbatim>\<open>name\<close>,
  \<^verbatim>\<open>status\<close>, \<^verbatim>\<open>reason\<close> and \<^verbatim>\<open>attachment\<close> of the row carry the
  prefix \<open>rd_\<close>, since the parent document has fields of the same names. The check box
  \<^verbatim>\<open>is_required\<close> is only ever tested for truth.
\<close>

record required_document =
  rd_name :: string
  document_name :: string
  is_required :: bool
  rd_status :: string
  rd_reason :: "string option"
  rd_attachment :: "string option"

text \<open>The Custom Clearance document; \<open>None\<close> is Python's \<^verbatim>\<open>None\<close>.\<close>

record custom_clearance =
  name :: string
  status :: string
  customer :: "string option"
  sales_invoice :: "string option"
  payment_status :: string
  payment_date :: "string option"
  amount :: "real option"
  additional_payment_amount :: "real option"
  risk_status_comment :: "string option"
  first_payment_branch :: "string option"
  first_payment_account_number :: "string option"
  first_payment_custom_id_code :: "string option"
  second_payment_branch :: "string option"
  second_payment_account_number :: "string option"
  second_payment_custom_id_code :: "string option"
  required_documents :: "required_document list"

section \<open>Save-time validation\<close>

text \<open>
  The loop of \<^verbatim>\<open>validate\<close> (lines 15 to 22) over the rows, as a function of the pair
  \<open>(all_mandatory_accepted, has_required_docs)\<close>; the \<^verbatim>\<open>break\<close> ends the scan at
  the first mandatory row that is not accepted.
\<close>

fun scan_mandatory :: "required_document list \<Rightarrow> bool \<times> bool \<Rightarrow> bool \<times> bool" where
  "scan_mandatory [] (all_mandatory_accepted, has_required_docs) =
     (all_mandatory_accepted, has_required_docs)"
| "scan_mandatory (req_doc # rest) (all_mandatory_accepted, has_required_docs) =
     (if is_required req_doc then
        (if rd_status req_doc \<noteq> ''Accepted'' then (False, True)
         else scan_mandatory rest (all_mandatory_accepted, True))
      else scan_mandatory rest (all_mandatory_accepted, has_required_docs))"

text \<open>
  \<^verbatim>\<open>validate_status_transition\<close> (lines 34 to 44). The second argument is
  \<^verbatim>\<open>self._doc_before_save\<close>: the persisted version, \<open>None\<close> when there is none.
\<close>

definition validate_status_transition ::
  "custom_clearance \<Rightarrow> custom_clearance option \<Rightarrow> error + unit" where
  "validate_status_transition self doc_before_save =
     (if status self = ''Risk Analysis'' \<and>
         (case doc_before_save of None \<Rightarrow> False
          | Some before \<Rightarrow> status before \<notin> set [''In Review'', ''Risk Analysis''])
      then Inl (ValidationError ''Status can only be changed to Risk Analysis from In Review'')
      else if status self = ''Cleared'' \<and>
         (case doc_before_save of None \<Rightarrow> False
          | Some before \<Rightarrow> status before \<notin> set [''Risk Analysis'', ''Cleared''])
      then Inl (ValidationError ''Status can only be changed to Cleared from Risk Analysis'')
      else Inr ())"

text \<open>
  The framework's \<^verbatim>\<open>has_value_changed("status")\<close>: true when there is no persisted
  version, otherwise the comparison of the two values.
\<close>

definition has_value_changed_status :: "custom_clearance \<Rightarrow> custom_clearance option \<Rightarrow> bool" where
  "has_value_changed_status self doc_before_save =
     (case doc_before_save of None \<Rightarrow> True | Some previous \<Rightarrow> status previous \<noteq> status self)"

text \<open>The first block of \<^verbatim>\<open>validate\<close> (lines 14 to 25): the checklist engine.\<close>

definition auto_promote :: "custom_clearance \<Rightarrow> custom_clearance" where
  "auto_promote self =
     (if status self = ''Document Submitting'' \<and> required_documents self \<noteq> [] then
        (case scan_mandatory (required_documents self) (True, False) of
           (all_mandatory_accepted, has_required_docs) \<Rightarrow>
             if has_required_docs \<and> all_mandatory_accepted
             then self\<lparr>status := ''In Review''\<rparr> else self)
      else self)"

text \<open>
  \<^verbatim>\<open>validate\<close> (lines 11 to 29): the document as the hook leaves it, or the error it
  raises.
\<close>

definition validate :: "custom_clearance \<Rightarrow> custom_clearance option \<Rightarrow> error + custom_clearance" where
  "validate self doc_before_save =
     (let self1 = auto_promote self in
      if has_value_changed_status self1 doc_before_save then
        (case validate_status_transition self1 doc_before_save of
           Inl e \<Rightarrow> Inl e
         | Inr _ \<Rightarrow> Inr self1)
      else Inr self1)"

section \<open>The table of clearances and the save of a document\<close>

text \<open>
  The table is the list of its rows. \<^verbatim>\<open>frappe.get_doc\<close> reads a row by its name and
  raises when there is none; a write goes to every row of that name, as the UPDATE
  statement does.
\<close>

definition lookup_clearance :: "custom_clearance list \<Rightarrow> string \<Rightarrow> custom_clearance option" where
  "lookup_clearance db n = find (\<lambda>c. name c = n) db"

definition get_doc :: "custom_clearance list \<Rightarrow> string \<Rightarrow> error + custom_clearance" where
  "get_doc db n =
     (case lookup_clearance db n of
        None \<Rightarrow> Inl (DoesNotExistError ''Custom Clearance not found'')
      | Some c \<Rightarrow> Inr c)"

definition db_update :: "custom_clearance list \<Rightarrow> custom_clearance \<Rightarrow> custom_clearance list" where
  "db_update db doc = map (\<lambda>c. if name c = name doc then doc else c) db"

text \<open>
  \<^verbatim>\<open>Document.save\<close> of a document read from the table: the framework loads the
  persisted version, runs \<^verbatim>\<open>validate\<close> and, unless it raised, writes the document.
  The result is the document in memory and the table.
\<close>

definition save ::
  "custom_clearance list \<Rightarrow> custom_clearance \<Rightarrow> error + custom_clearance \<times> custom_clearance list" where
  "save db doc =
     (case validate doc (lookup_clearance db (name doc)) of
        Inl e \<Rightarrow> Inl e
      | Inr doc' \<Rightarrow> Inr (doc', db_update db doc'))"

text \<open>
  \<^verbatim>\<open>doc.db_set("status", v)\<close> and \<^verbatim>\<open>frappe.db.set_value\<close>: a write of one
  column to the rows of a given name. Neither runs \<^verbatim>\<open>validate\<close>.
\<close>

definition db_set_value ::
  "custom_clearance list \<Rightarrow> string \<Rightarrow> (custom_clearance \<Rightarrow> custom_clearance) \<Rightarrow> custom_clearance list" where
  "db_set_value db n upd = map (\<lambda>c. if name c = n then upd c else c) db"

section \<open>Session, linked customer and the other tables\<close>

record dynamic_link =
  link_doctype :: string
  link_name :: string

record contact =
  contact_name :: string
  contact_user :: "string option"
  links :: "dynamic_link list"

record portal_user =
  pu_user :: string
  pu_parent :: string
  pu_parenttype :: string

record item =
  item_name :: string
  item_code :: string

record invoice_item =
  ii_item_code :: string
  qty :: nat
  rate :: real

text \<open>
  A Sales Invoice. \<open>docstatus\<close> is the framework's submission state: 0 for a draft, which
  is what a new document has until it is submitted.
\<close>

record sales_invoice_doc =
  si_name :: string
  si_status :: "string option"
  si_customer :: "string option"
  posting_date :: string
  due_date :: string
  si_items :: "invoice_item list"
  custom_custom_clearance :: "string option"
  docstatus :: nat

record notification_log =
  for_user :: string
  nl_type :: string
  nl_document_type :: string
  nl_document_name :: string
  subject :: string
  email_content :: string

text \<open>
  What an entry point reads and writes: the session's user and roles
  (\<^verbatim>\<open>frappe.session.user\<close>, \<^verbatim>\<open>frappe.get_roles\<close>), the tables, the date
  \<^verbatim>\<open>today()\<close>, whether the Sales Invoice table has the column
  \<^verbatim>\<open>custom_custom_clearance\<close>, the name the framework gives to the next invoice it
  inserts, and the error log of \<^verbatim>\<open>frappe.log_error\<close> (message and title).
\<close>

record world =
  session_user :: string
  session_roles :: "string list"
  clearances :: "custom_clearance list"
  contacts :: "contact list"
  portal_users :: "portal_user list"
  items :: "item list"
  sales_invoices :: "sales_invoice_doc list"
  has_custom_column :: bool
  next_invoice_name :: string
  today :: string
  notification_logs :: "notification_log list"
  error_log :: "(string \<times> string) list"

text \<open>Python's truth of a value that is a string or \<^verbatim>\<open>None\<close>, and of a number.\<close>

definition truthy :: "string option \<Rightarrow> bool" where
  "truthy v = (case v of None \<Rightarrow> False | Some s \<Rightarrow> s \<noteq> [])"

definition truthy_num :: "real option \<Rightarrow> bool" where
  "truthy_num v = (case v of None \<Rightarrow> False | Some x \<Rightarrow> x \<noteq> 0)"

text \<open>
  The customer linked to the session's user: the block every entry point repeats (lines 170
  to 188, 230 to 248, 302 to 319). The contact is the first one of the user, read by its
  name, which is the key of its table; the customer is the target of its first link to a
  Customer; without one, the parent of the user's first Portal User row under a Customer.
\<close>

definition customer_of_contact :: "world \<Rightarrow> string option" where
  "customer_of_contact w =
     (case find (\<lambda>c. contact_user c = Some (session_user w)) (contacts w) of
        None \<Rightarrow> None
      | Some contact_doc \<Rightarrow>
          if contact_name contact_doc = [] then None
          else (case find (\<lambda>l. link_doctype l = ''Customer'') (links contact_doc) of
                  None \<Rightarrow> None
                | Some l \<Rightarrow> Some (link_name l)))"

definition linked_customer :: "world \<Rightarrow> string option" where
  "linked_customer w =
     (let customer = customer_of_contact w in
      if \<not> truthy customer then
        (case take 1 (filter (\<lambda>p. pu_user p = session_user w \<and> pu_parenttype p = ''Customer'')
                        (portal_users w)) of
           [] \<Rightarrow> customer
         | p # _ \<Rightarrow> Some (pu_parent p))
      else customer)"

text \<open>The answer of an entry point: the success flag and the message.\<close>

type_synonym response = "bool \<times> string"

section \<open>Entry points on the rows of required documents\<close>

text \<open>
  The loop of \<^verbatim>\<open>update_document_attachment\<close> (lines 195 to 204): the flag
  \<^verbatim>\<open>found\<close> and the rows after the loop.
\<close>

fun attach_row ::
  "required_document list \<Rightarrow> string \<Rightarrow> string option \<Rightarrow> bool \<Rightarrow> bool \<times> required_document list" where
  "attach_row [] row_name file_url is_reupload = (False, [])"
| "attach_row (req_doc # rest) row_name file_url is_reupload =
     (if rd_name req_doc = row_name then
        (let req_doc1 = req_doc\<lparr>rd_attachment := file_url\<rparr>;
             req_doc2 = (if is_reupload \<and> rd_status req_doc1 = ''Declined''
                         then req_doc1\<lparr>rd_status := ''In Review'', rd_reason := None\<rparr>
                         else req_doc1)
         in (True, req_doc2 # rest))
      else (case attach_row rest row_name file_url is_reupload of
              (found, rest') \<Rightarrow> (found, req_doc # rest')))"

definition update_document_attachment ::
  "world \<Rightarrow> string \<Rightarrow> string \<Rightarrow> string option \<Rightarrow> bool \<Rightarrow> error + response \<times> world" where
  "update_document_attachment w clearance_name row_name file_url is_reupload =
     (if session_user w = ''Guest''
      then Inl (PermissionError ''Please login to upload documents'')
      else (case get_doc (clearances w) clearance_name of
        Inl e \<Rightarrow> Inl e
      | Inr clearance \<Rightarrow>
          if session_user w \<noteq> ''Administrator'' \<and>
             (\<not> truthy (linked_customer w) \<or> customer clearance \<noteq> linked_customer w)
          then Inl (PermissionError ''You don't have permission to update this Custom Clearance'')
          else (case attach_row (required_documents clearance) row_name file_url is_reupload of
            (found, rows) \<Rightarrow>
              if \<not> found then Inl (DoesNotExistError ''Document row not found'')
              else (case save (clearances w) (clearance\<lparr>required_documents := rows\<rparr>) of
                Inl e \<Rightarrow> Inl e
              | Inr (clearance', db) \<Rightarrow>
                  Inr ((True, ''Document attached successfully''), w\<lparr>clearances := db\<rparr>)))))"

text \<open>The loop of \<^verbatim>\<open>update_document_status\<close> (lines 257 to 264).\<close>

fun set_row_status ::
  "required_document list \<Rightarrow> string \<Rightarrow> string \<Rightarrow> string option \<Rightarrow> bool \<times> required_document list" where
  "set_row_status [] row_name new_status reason = (False, [])"
| "set_row_status (req_doc # rest) row_name new_status reason =
     (if rd_name req_doc = row_name then
        (let req_doc1 = req_doc\<lparr>rd_status := new_status\<rparr>;
             req_doc2 = (if truthy reason then req_doc1\<lparr>rd_reason := reason\<rparr> else req_doc1)
         in (True, req_doc2 # rest))
      else (case set_row_status rest row_name new_status reason of
              (found, rest') \<Rightarrow> (found, req_doc # rest')))"

text \<open>
  \<^verbatim>\<open>update_document_status\<close> up to the commit of line 271: the document in memory
  after the save, and the world.
\<close>

definition update_document_status_save ::
  "world \<Rightarrow> string \<Rightarrow> string \<Rightarrow> string \<Rightarrow> string option \<Rightarrow> error + custom_clearance \<times> world" where
  "update_document_status_save w clearance_name row_name new_status reason =
     (if session_user w = ''Guest''
      then Inl (PermissionError ''Please login to update document status'')
      else (case get_doc (clearances w) clearance_name of
        Inl e \<Rightarrow> Inl e
      | Inr clearance \<Rightarrow>
          if session_user w \<noteq> ''Administrator'' \<and>
             \<not> (truthy (linked_customer w) \<and> customer clearance = linked_customer w) \<and>
             (\<not> truthy (linked_customer w) \<or> customer clearance \<noteq> linked_customer w)
          then Inl (PermissionError ''You don't have permission to update this Custom Clearance'')
          else (case set_row_status (required_documents clearance) row_name new_status reason of
            (found, rows) \<Rightarrow>
              if \<not> found then Inl (DoesNotExistError ''Document row not found'')
              else (case save (clearances w) (clearance\<lparr>required_documents := rows\<rparr>) of
                Inl e \<Rightarrow> Inl e
              | Inr (clearance', db) \<Rightarrow> Inr (clearance', w\<lparr>clearances := db\<rparr>)))))"

text \<open>
  The loop of lines 275 to 280: \<^verbatim>\<open>all_mandatory_accepted\<close> after the scan. There is no
  second flag here.
\<close>

fun scan_accepted :: "required_document list \<Rightarrow> bool \<Rightarrow> bool" where
  "scan_accepted [] all_mandatory_accepted = all_mandatory_accepted"
| "scan_accepted (req_doc # rest) all_mandatory_accepted =
     (if is_required req_doc then
        (if rd_status req_doc \<noteq> ''Accepted'' then False
         else scan_accepted rest all_mandatory_accepted)
      else scan_accepted rest all_mandatory_accepted)"

text \<open>Lines 273 to 283, on the document in memory after the save.\<close>

definition promote_after_update :: "custom_clearance \<Rightarrow> world \<Rightarrow> world" where
  "promote_after_update clearance w =
     (if status clearance = ''Document Submitting'' \<and> required_documents clearance \<noteq> [] then
        (if scan_accepted (required_documents clearance) True
         then w\<lparr>clearances :=
                  db_set_value (clearances w) (name clearance) (\<lambda>c. c\<lparr>status := ''Review''\<rparr>)\<rparr>
         else w)
      else w)"

definition update_document_status ::
  "world \<Rightarrow> string \<Rightarrow> string \<Rightarrow> string \<Rightarrow> string option \<Rightarrow> error + response \<times> world" where
  "update_document_status w clearance_name row_name new_status reason =
     (case update_document_status_save w clearance_name row_name new_status reason of
        Inl e \<Rightarrow> Inl e
      | Inr (clearance, w') \<Rightarrow>
          Inr ((True, ''Document status updated successfully''),
               promote_after_update clearance w'))"

section \<open>The overall status\<close>

text \<open>\<^verbatim>\<open>update_clearance_status\<close> (lines 288 to 337).\<close>

definition update_clearance_status ::
  "world \<Rightarrow> string \<Rightarrow> string \<Rightarrow> string option \<Rightarrow> real option \<Rightarrow> error + response \<times> world" where
  "update_clearance_status w clearance_name new_status comment additional_amount =
     (if session_user w = ''Guest''
      then Inl (PermissionError ''Please login to update status'')
      else (case get_doc (clearances w) clearance_name of
        Inl e \<Rightarrow> Inl e
      | Inr clearance \<Rightarrow>
          let is_customer =
                (session_user w \<noteq> ''Administrator'' \<and>
                 truthy (linked_customer w) \<and> customer clearance = linked_customer w)
          in if is_customer
          then Inl (PermissionError ''You don't have permission to change the clearance status'')
          else
            let clearance1 = clearance\<lparr>status := new_status\<rparr>;
                clearance2 = (if truthy comment then clearance1\<lparr>risk_status_comment := comment\<rparr>
                              else clearance1);
                clearance3 = (if truthy_num additional_amount
                              then clearance2\<lparr>additional_payment_amount := additional_amount\<rparr>
                              else clearance2)
            in (case save (clearances w) clearance3 of
                 Inl e \<Rightarrow> Inl e
               | Inr (clearance', db) \<Rightarrow>
                   Inr ((True, ''Status updated successfully''), w\<lparr>clearances := db\<rparr>))))"

section \<open>Invoice and payment mirror\<close>

text \<open>
  \<^verbatim>\<open>create_sales_invoice\<close> (lines 70 to 108). \<^verbatim>\<open>flt\<close> of a stored amount is
  the amount. The invoice is only inserted, never submitted; the insert gives it its name
  and adds it to the table. The result is the invoice's name.
\<close>

definition create_sales_invoice :: "world \<Rightarrow> string \<Rightarrow> error + string \<times> world" where
  "create_sales_invoice w source_name =
     (case get_doc (clearances w) source_name of
        Inl e \<Rightarrow> Inl e
      | Inr custom_clearance \<Rightarrow>
          if truthy (sales_invoice custom_clearance)
          then Inl (ValidationError ''Sales Invoice already created: {0}'')
          else
            (let service_item =
                   map_option item_name
                     (find (\<lambda>i. item_code i = ''Custom Clearance Service'') (items w))
             in case service_item of
                  None \<Rightarrow> Inl (ValidationError
                    ''Custom Clearance Service item not found. Please ensure it is created during app installation.'')
                | Some service_item_name \<Rightarrow>
                    if service_item_name = [] then Inl (ValidationError
                      ''Custom Clearance Service item not found. Please ensure it is created during app installation.'')
                    else
                      (let invoice = \<lparr>
                             si_name = next_invoice_name w,
                             si_status = None,
                             si_customer = customer custom_clearance,
                             posting_date = today w,
                             due_date = today w,
                             si_items = [\<lparr>ii_item_code = service_item_name, qty = 1,
                                          rate = (case amount custom_clearance of
                                                    None \<Rightarrow> 0
                                                  | Some a \<Rightarrow> if a \<noteq> 0 then a else 0)\<rparr>],
                             custom_custom_clearance =
                               (if has_custom_column w then Some (name custom_clearance) else None),
                             docstatus = 0\<rparr>
                       in Inr (si_name invoice,
                               w\<lparr>sales_invoices := sales_invoices w @ [invoice],
                                 clearances :=
                                   db_set_value (clearances w) (name custom_clearance)
                                     (\<lambda>c. c\<lparr>sales_invoice := Some (si_name invoice)\<rparr>)\<rparr>))))"

text \<open>
  \<^verbatim>\<open>frappe.db.get_value("Custom Clearance", {"sales_invoice": doc.name}, "name")\<close>: the
  name of the first clearance that refers to the invoice.
\<close>

definition clearance_of_invoice :: "world \<Rightarrow> sales_invoice_doc \<Rightarrow> string option" where
  "clearance_of_invoice w doc =
     map_option name (find (\<lambda>c. sales_invoice c = Some (si_name doc)) (clearances w))"

text \<open>The chain of lines 118 to 127.\<close>

definition payment_status_of :: "string option \<Rightarrow> string" where
  "payment_status_of invoice_status =
     (if invoice_status = Some ''Paid'' then ''Paid''
      else if invoice_status \<in> Some ` set [''Partly Paid'', ''Partly Paid and Discounted'']
      then ''Partially Paid''
      else if invoice_status \<in> Some ` set [''Draft'', ''Unpaid'', ''Overdue'',
                ''Unpaid and Discounted'', ''Overdue and Discounted'', ''Submitted'',
                ''Cancelled'', ''Return'', ''Credit Note Issued'', ''Internal Transfer'']
      then ''Pending''
      else ''Pending'')"

text \<open>\<^verbatim>\<open>update_clearance_payment_status\<close> (lines 111 to 134).\<close>

definition update_clearance_payment_status :: "world \<Rightarrow> sales_invoice_doc \<Rightarrow> string \<Rightarrow> world" where
  "update_clearance_payment_status w doc method =
     (let custom_clearance = clearance_of_invoice w doc in
      if truthy custom_clearance then
        (case custom_clearance of
           None \<Rightarrow> w
         | Some n \<Rightarrow>
            (let db1 = db_set_value (clearances w) n
                         (\<lambda>c. c\<lparr>payment_status := payment_status_of (si_status doc)\<rparr>);
                 db2 = (if si_status doc = Some ''Paid''
                        then db_set_value db1 n (\<lambda>c. c\<lparr>payment_date := Some (today w)\<rparr>)
                        else db1)
             in w\<lparr>clearances := db2\<rparr>))
      else w)"

text \<open>\<^verbatim>\<open>handle_sales_invoice_cancel\<close> (lines 137 to 154).\<close>

definition handle_sales_invoice_cancel :: "world \<Rightarrow> sales_invoice_doc \<Rightarrow> string \<Rightarrow> world" where
  "handle_sales_invoice_cancel w doc method =
     (let custom_clearance = clearance_of_invoice w doc in
      if truthy custom_clearance then
        (case custom_clearance of
           None \<Rightarrow> w
         | Some n \<Rightarrow>
            (let db1 = db_set_value (clearances w) n (\<lambda>c. c\<lparr>sales_invoice := None\<rparr>);
                 db2 = db_set_value db1 n (\<lambda>c. c\<lparr>payment_status := ''Pending''\<rparr>);
                 db3 = db_set_value db2 n (\<lambda>c. c\<lparr>payment_date := None\<rparr>);
                 current_status = map_option status (lookup_clearance db3 n);
                 db4 = (if current_status \<in> Some ` set [''Green'', ''Yellow'', ''Red'']
                        then db_set_value db3 n (\<lambda>c. c\<lparr>status := ''Review''\<rparr>)
                        else db3)
             in w\<lparr>clearances := db4\<rparr>))
      else w)"

section \<open>Payment information and its notification\<close>

text \<open>
  The calls into the framework that the \<^verbatim>\<open>try\<close> block of
  \<^verbatim>\<open>save_payment_info\<close> makes (lines 538 to 575). Each of them may raise, which is
  what the block is there for, so each is a function into a sum: the users of the
  customer's Portal User rows (at most one row is asked for), the names of the contacts
  linked to the customer, the \<^verbatim>\<open>email\<close> of a contact read by name, the name of the
  user with a given email, and the insert of the notification followed by the commit.
\<close>

record collaborators =
  portal_users_of :: "string option \<Rightarrow> error + string option list"
  contacts_linked_to :: "string option \<Rightarrow> error + string list"
  contact_email :: "string \<Rightarrow> error + string option"
  user_with_email :: "string \<Rightarrow> error + string option"
  insert_notification :: "notification_log \<Rightarrow> error + unit"

text \<open>Lines 540 to 559: \<^verbatim>\<open>customer_user\<close>.\<close>

definition customer_user_of :: "collaborators \<Rightarrow> string option \<Rightarrow> error + string option" where
  "customer_user_of env cust =
     (case portal_users_of env cust of
        Inl e \<Rightarrow> Inl e
      | Inr [] \<Rightarrow>
          (case contacts_linked_to env cust of
             Inl e \<Rightarrow> Inl e
           | Inr [] \<Rightarrow> Inr None
           | Inr (contact0 # _) \<Rightarrow>
               (case contact_email env contact0 of
                  Inl e \<Rightarrow> Inl e
                | Inr None \<Rightarrow> Inr None
                | Inr (Some email) \<Rightarrow>
                    if email = [] then Inr None else user_with_email env email))
      | Inr (customer_user # _) \<Rightarrow> Inr customer_user)"

text \<open>
  The body of the \<^verbatim>\<open>try\<close> block: the notification inserted, if any, or the exception
  that left the block.
\<close>

definition create_notification ::
  "collaborators \<Rightarrow> custom_clearance \<Rightarrow> string \<Rightarrow> string \<Rightarrow> error + notification_log option" where
  "create_notification env clearance clearance_name payment_type =
     (case customer_user_of env (customer clearance) of
        Inl e \<Rightarrow> Inl e
      | Inr None \<Rightarrow> Inr None
      | Inr (Some customer_user) \<Rightarrow>
          if customer_user = [] then Inr None
          else
            (let payment_label = (if payment_type = ''first'' then ''First Payment''
                                  else ''Additional Payment'');
                 notification_doc = \<lparr>
                   for_user = customer_user,
                   nl_type = ''Alert'',
                   nl_document_type = ''Custom Clearance'',
                   nl_document_name = clearance_name,
                   subject = ''Payment Information Updated - '' @ clearance_name,
                   email_content = payment_label
                     @ '' information has been updated for your Custom Clearance ''
                     @ clearance_name
                     @ ''. Please check the payment details on the portal.''\<rparr>
             in case insert_notification env notification_doc of
                  Inl e \<Rightarrow> Inl e
                | Inr _ \<Rightarrow> Inr (Some notification_doc)))"

text \<open>\<^verbatim>\<open>str(e)\<close> of an exception: its message.\<close>

fun str_error :: "error \<Rightarrow> string" where
  "str_error (PermissionError m) = m"
| "str_error (DoesNotExistError m) = m"
| "str_error (ValidationError m) = m"
| "str_error (OtherException m) = m"

text \<open>Lines 498 to 504.\<close>

definition is_staff :: "world \<Rightarrow> bool" where
  "is_staff w =
     (if session_user w = ''Administrator'' then True
      else ''Customer'' \<notin> set (session_roles w) \<or> length (session_roles w) > 1)"

text \<open>
  Lines 514 to 531: the fields given are written, the others are left. \<^verbatim>\<open>flt\<close> of
  the amount is the amount.
\<close>

definition merge_payment_info ::
  "custom_clearance \<Rightarrow> string \<Rightarrow> real option \<Rightarrow> string option \<Rightarrow> string option \<Rightarrow> string option
     \<Rightarrow> custom_clearance" where
  "merge_payment_info clearance payment_type amt branch account_number custom_id_code =
     (if payment_type = ''first'' then
        (let c1 = (if truthy_num amt then clearance\<lparr>amount := amt\<rparr> else clearance);
             c2 = (if truthy branch then c1\<lparr>first_payment_branch := branch\<rparr> else c1);
             c3 = (if truthy account_number
                   then c2\<lparr>first_payment_account_number := account_number\<rparr> else c2);
             c4 = (if truthy custom_id_code
                   then c3\<lparr>first_payment_custom_id_code := custom_id_code\<rparr> else c3)
         in c4)
      else if payment_type = ''second'' then
        (let c1 = (if truthy_num amt then clearance\<lparr>additional_payment_amount := amt\<rparr>
                   else clearance);
             c2 = (if truthy branch then c1\<lparr>second_payment_branch := branch\<rparr> else c1);
             c3 = (if truthy account_number
                   then c2\<lparr>second_payment_account_number := account_number\<rparr> else c2);
             c4 = (if truthy custom_id_code
                   then c3\<lparr>second_payment_custom_id_code := custom_id_code\<rparr> else c3)
         in c4)
      else clearance)"

text \<open>\<^verbatim>\<open>save_payment_info\<close> (lines 488 to 580).\<close>

definition save_payment_info ::
  "collaborators \<Rightarrow> world \<Rightarrow> string \<Rightarrow> string \<Rightarrow> real option \<Rightarrow> string option \<Rightarrow> string option
     \<Rightarrow> string option \<Rightarrow> error + response \<times> world" where
  "save_payment_info env w clearance_name payment_type amt branch account_number custom_id_code =
     (if session_user w = ''Guest''
      then Inl (PermissionError ''Please login to save payment information'')
      else (case get_doc (clearances w) clearance_name of
        Inl e \<Rightarrow> Inl e
      | Inr clearance \<Rightarrow>
          if \<not> is_staff w
          then Inl (PermissionError ''Only staff members can save payment information'')
          else if payment_type \<notin> set [''first'', ''second'']
          then Inl (ValidationError (''Invalid payment type. Must be 'first' or 'second'' @ [CHR 0x27]))
          else (case save (clearances w)
                       (merge_payment_info clearance payment_type amt branch account_number
                          custom_id_code) of
            Inl e \<Rightarrow> Inl e
          | Inr (clearance', db) \<Rightarrow>
              (let w1 = w\<lparr>clearances := db\<rparr>;
                   w2 = (case create_notification env clearance' clearance_name payment_type of
                           Inl e \<Rightarrow>
                             w1\<lparr>error_log := error_log w1 @
                                  [(''Error creating notification: '' @ str_error e,
                                    ''Payment Info Notification Error'')]\<rparr>
                         | Inr None \<Rightarrow> w1
                         | Inr (Some notification_doc) \<Rightarrow>
                             w1\<lparr>notification_logs := notification_logs w1 @ [notification_doc]\<rparr>)
               in Inr ((True, ''Payment information saved successfully''), w2)))))"

section \<open>Concrete records\<close>

text \<open>
  A row, a clearance of customer \<open>CUST-A\<close> and a world around one table of clearances, for
  the theorems that evaluate the functions above on concrete input.
\<close>

definition sample_row :: "string \<Rightarrow> bool \<Rightarrow> string \<Rightarrow> string option \<Rightarrow> required_document" where
  "sample_row n required st reason =
     \<lparr>rd_name = n, document_name = ''Bill of Lading'', is_required = required,
      rd_status = st, rd_reason = reason, rd_attachment = None\<rparr>"

definition sample_clearance ::
  "string \<Rightarrow> string \<Rightarrow> string option \<Rightarrow> required_document list \<Rightarrow> custom_clearance" where
  "sample_clearance n st invoice rows =
     \<lparr>name = n, status = st, customer = Some ''CUST-A'', sales_invoice = invoice,
      payment_status = ''Pending'', payment_date = None, amount = Some 250,
      additional_payment_amount = None, risk_status_comment = None,
      first_payment_branch = None, first_payment_account_number = None,
      first_payment_custom_id_code = None, second_payment_branch = None,
      second_payment_account_number = None, second_payment_custom_id_code = None,
      required_documents = rows\<rparr>"

definition sample_contact :: "string \<Rightarrow> string \<Rightarrow> contact" where
  "sample_contact user cust =
     \<lparr>contact_name = ''CONTACT-1'', contact_user = Some user,
      links = [\<lparr>link_doctype = ''Customer'', link_name = cust\<rparr>]\<rparr>"

definition sample_world :: "string \<Rightarrow> contact list \<Rightarrow> custom_clearance list \<Rightarrow> world" where
  "sample_world user cts db =
     \<lparr>session_user = user, session_roles = [''Customer''], clearances = db, contacts = cts,
      portal_users = [],
      items = [\<lparr>item_name = ''Custom Clearance Service'', item_code = ''Custom Clearance Service''\<rparr>],
      sales_invoices = [], has_custom_column = True, next_invoice_name = ''SINV-0001'',
      today = ''2026-01-15'', notification_logs = [], error_log = []\<rparr>"

definition sample_invoice :: "string \<Rightarrow> string \<Rightarrow> sales_invoice_doc" where
  "sample_invoice n st =
     \<lparr>si_name = n, si_status = Some st, si_customer = Some ''CUST-A'',
      posting_date = ''2026-01-10'', due_date = ''2026-01-10'', si_items = [],
      custom_custom_clearance = None, docstatus = 1\<rparr>"

text \<open>Collaborators whose every call raises, and collaborators that find a user.\<close>

definition failing_collaborators :: collaborators where
  "failing_collaborators =
     \<lparr>portal_users_of = (\<lambda>_. Inl (OtherException ''database is gone'')),
      contacts_linked_to = (\<lambda>_. Inl (OtherException ''database is gone'')),
      contact_email = (\<lambda>_. Inl (OtherException ''no attribute email'')),
      user_with_email = (\<lambda>_. Inl (OtherException ''database is gone'')),
      insert_notification = (\<lambda>_. Inl (OtherException ''insert refused''))\<rparr>"

definition working_collaborators :: collaborators where
  "working_collaborators =
     \<lparr>portal_users_of = (\<lambda>_. Inr [Some ''alice@example.com'']),
      contacts_linked_to = (\<lambda>_. Inr []),
      contact_email = (\<lambda>_. Inr None),
      user_with_email = (\<lambda>_. Inr None),
      insert_notification = (\<lambda>_. Inr ())\<rparr>"

text \<open>
  A user linked to customer \<open>CUST-B\<close> and a clearance of customer \<open>CUST-A\<close>; the
  administrator and a clearance whose rows are all optional; the customer of the clearance
  and a declined row.
\<close>

definition other_customer_world :: world where
  "other_customer_world =
     sample_world ''bob@example.com'' [sample_contact ''bob@example.com'' ''CUST-B'']
       [sample_clearance ''CC-1'' ''In Review'' None []]"

definition optional_rows_world :: world where
  "optional_rows_world =
     sample_world ''Administrator'' []
       [sample_clearance ''CC-1'' ''Document Submitting'' None
          [sample_row ''r1'' False ''In Review'' None]]"

definition declined_row_world :: world where
  "declined_row_world =
     sample_world ''alice@example.com'' [sample_contact ''alice@example.com'' ''CUST-A'']
       [sample_clearance ''CC-1'' ''Document Submitting'' None
          [sample_row ''r1'' True ''Declined'' (Some ''page missing'')]]"

text \<open>
  A clearance that refers to invoice \<open>SINV-7\<close>, and a world without the service item.
\<close>

definition invoiced_world :: "string \<Rightarrow> world" where
  "invoiced_world st =
     sample_world ''Administrator'' [] [sample_clearance ''CC-1'' st (Some ''SINV-7'') []]"

definition no_item_world :: world where
  "no_item_world =
     (sample_world ''Administrator'' [] [sample_clearance ''CC-1'' ''In Review'' None []])
       \<lparr>items := []\<rparr>"

definition staff_world :: world where
  "staff_world =
     (sample_world ''clerk@example.com'' [] [sample_clearance ''CC-1'' ''In Review'' None []])
       \<lparr>session_roles := [''Accounts User'']\<rparr>"

text \<open>The administrator and a clearance with a mandatory row and an optional row.\<close>

definition mandatory_row_world :: "bool \<Rightarrow> world" where
  "mandatory_row_world second_required =
     sample_world ''Administrator'' []
       [sample_clearance ''CC-1'' ''Document Submitting'' None
          [sample_row ''r1'' True ''In Review'' None,
           sample_row ''r2'' second_required ''In Review'' None]]"

section \<open>Properties of the validation\<close>

lemma scan_mandatory_found:
  "scan_mandatory rows (a, True) =
     (a \<and> (\<forall>r \<in> set rows. is_required r \<longrightarrow> rd_status r = ''Accepted''), True)"
  by (induction rows) auto

lemma scan_mandatory_eq:
  "scan_mandatory rows (True, False) =
     ((\<forall>r \<in> set rows. is_required r \<longrightarrow> rd_status r = ''Accepted''),
      (\<exists>r \<in> set rows. is_required r))"
  by (induction rows) (auto simp: scan_mandatory_found)

lemma auto_promote_status:
  "status (auto_promote self) =
     (if status self = ''Document Submitting'' \<and> required_documents self \<noteq> []
         \<and> (\<exists>r \<in> set (required_documents self). is_required r)
         \<and> (\<forall>r \<in> set (required_documents self). is_required r \<longrightarrow> rd_status r = ''Accepted'')
      then ''In Review'' else status self)"
  by (auto simp: auto_promote_def scan_mandatory_eq)

lemma auto_promote_other:
  "status self \<noteq> ''Document Submitting'' \<Longrightarrow> auto_promote self = self"
  by (simp add: auto_promote_def)

lemma auto_promote_eq:
  "auto_promote self =
     (if status self = ''Document Submitting'' \<and> required_documents self \<noteq> []
         \<and> (\<exists>r \<in> set (required_documents self). is_required r)
         \<and> (\<forall>r \<in> set (required_documents self). is_required r \<longrightarrow> rd_status r = ''Accepted'')
      then self\<lparr>status := ''In Review''\<rparr> else self)"
  by (auto simp: auto_promote_def scan_mandatory_eq)

lemma auto_promote_name [simp]: "name (auto_promote self) = name self"
  by (simp add: auto_promote_eq)

lemma auto_promote_rows [simp]: "required_documents (auto_promote self) = required_documents self"
  by (simp add: auto_promote_eq)

lemma guard_unrestricted:
  "status self \<noteq> ''Risk Analysis'' \<Longrightarrow> status self \<noteq> ''Cleared'' \<Longrightarrow>
     validate_status_transition self before = Inr ()"
  by (simp add: validate_status_transition_def)

lemma validate_unrestricted:
  "status (auto_promote self) \<noteq> ''Risk Analysis'' \<Longrightarrow>
   status (auto_promote self) \<noteq> ''Cleared'' \<Longrightarrow>
     validate self before = Inr (auto_promote self)"
  by (simp add: validate_def Let_def guard_unrestricted)

lemma validate_guarded:
  "status self = ''Risk Analysis'' \<or> status self = ''Cleared'' \<Longrightarrow>
   validate self (Some before) =
     (if status before = status self then Inr self
      else case validate_status_transition self (Some before) of
             Inl e \<Rightarrow> Inl e | Inr _ \<Rightarrow> Inr self)"
  by (auto simp: validate_def auto_promote_other has_value_changed_status_def)

section \<open>Properties of the table and of the row loops\<close>

lemma lookup_name: "lookup_clearance db n = Some c \<Longrightarrow> name c = n"
  by (auto simp: lookup_clearance_def dest: find_Some_iff [THEN iffD1])

lemma lookup_db_update:
  "lookup_clearance (db_update db doc) n =
     (if n = name doc then map_option (\<lambda>_. doc) (lookup_clearance db n)
      else lookup_clearance db n)"
  by (induction db) (auto simp: lookup_clearance_def db_update_def)

lemma lookup_db_set_value:
  "(\<And>c. name (upd c) = name c) \<Longrightarrow>
   lookup_clearance (db_set_value db n upd) m =
     (if m = n then map_option upd (lookup_clearance db m) else lookup_clearance db m)"
  by (induction db) (auto simp: lookup_clearance_def db_set_value_def)

lemma save_same_status:
  assumes "lookup_clearance db (name doc) = Some before" and "status before = status doc"
  shows "save db doc = Inr (auto_promote doc, db_update db (auto_promote doc))"
proof (cases "status (auto_promote doc) = status doc")
  case True
  then show ?thesis
    using assms by (simp add: save_def validate_def Let_def has_value_changed_status_def)
next
  case False
  then have "status (auto_promote doc) = ''In Review''"
    by (simp add: auto_promote_status split: if_splits)
  then have "validate doc (Some before) = Inr (auto_promote doc)"
    by (intro validate_unrestricted) simp_all
  then show ?thesis
    using assms by (simp add: save_def)
qed

lemma scan_accepted_eq:
  "scan_accepted rows a =
     (a \<and> (\<forall>r \<in> set rows. is_required r \<longrightarrow> rd_status r = ''Accepted''))"
  by (induction rows) auto

lemma attach_row_split:
  "\<forall>x \<in> set pre. rd_name x \<noteq> rn \<Longrightarrow> rd_name r = rn \<Longrightarrow>
   attach_row (pre @ r # post) rn file_url is_reupload =
     (True, pre @ (if is_reupload \<and> rd_status r = ''Declined''
                   then r\<lparr>rd_attachment := file_url, rd_status := ''In Review'', rd_reason := None\<rparr>
                   else r\<lparr>rd_attachment := file_url\<rparr>) # post)"
  by (induction pre) auto

lemma set_row_status_split:
  "\<forall>x \<in> set pre. rd_name x \<noteq> rn \<Longrightarrow> rd_name r = rn \<Longrightarrow>
   set_row_status (pre @ r # post) rn st reason =
     (True, pre @ (if truthy reason then r\<lparr>rd_status := st, rd_reason := reason\<rparr>
                   else r\<lparr>rd_status := st\<rparr>) # post)"
  by (induction pre) auto

lemma set_row_status_found:
  "set_row_status rows rn st reason = (True, rows') \<Longrightarrow>
   \<exists>pre r post. rows = pre @ r # post \<and> (\<forall>x \<in> set pre. rd_name x \<noteq> rn) \<and> rd_name r = rn"
proof (induction rows arbitrary: rows')
  case Nil
  then show ?case by simp
next
  case (Cons a rows)
  show ?case
  proof (cases "rd_name a = rn")
    case True
    then have "a # rows = [] @ a # rows \<and> (\<forall>x \<in> set []. rd_name x \<noteq> rn) \<and> rd_name a = rn"
      by simp
    then show ?thesis by blast
  next
    case False
    with Cons.prems obtain rest' where "set_row_status rows rn st reason = (True, rest')"
      by (auto split: prod.splits)
    from Cons.IH [OF this] obtain pre r post where
      "rows = pre @ r # post" "\<forall>x \<in> set pre. rd_name x \<noteq> rn" "rd_name r = rn" by blast
    with False have "a # rows = (a # pre) @ r # post \<and> (\<forall>x \<in> set (a # pre). rd_name x \<noteq> rn)
        \<and> rd_name r = rn" by simp
    then show ?thesis by blast
  qed
qed

lemma update_document_status_save_result:
  assumes "update_document_status_save w cn rn st reason = Inr (c1, w1)"
  shows "\<exists>c0 pre r post.
           lookup_clearance (clearances w) cn = Some c0 \<and>
           required_documents c0 = pre @ r # post \<and>
           (\<forall>x \<in> set pre. rd_name x \<noteq> rn) \<and> rd_name r = rn \<and>
           c1 = auto_promote (c0\<lparr>required_documents :=
                  pre @ (if truthy reason then r\<lparr>rd_status := st, rd_reason := reason\<rparr>
                         else r\<lparr>rd_status := st\<rparr>) # post\<rparr>) \<and>
           w1 = w\<lparr>clearances := db_update (clearances w) c1\<rparr>"
proof -
  from assms obtain c0 where c0: "lookup_clearance (clearances w) cn = Some c0"
    by (auto simp: update_document_status_save_def get_doc_def split: if_splits option.splits)
  obtain found rows where sr: "set_row_status (required_documents c0) rn st reason = (found, rows)"
    by fastforce
  from assms c0 sr have found: "found"
    by (auto simp: update_document_status_save_def get_doc_def split: if_splits)
  with sr have "set_row_status (required_documents c0) rn st reason = (True, rows)"
    by simp
  from set_row_status_found [OF this] obtain pre r post where
    rows0: "required_documents c0 = pre @ r # post"
    and pre: "\<forall>x \<in> set pre. rd_name x \<noteq> rn" and r: "rd_name r = rn"
    by blast
  have rows: "rows = pre @ (if truthy reason then r\<lparr>rd_status := st, rd_reason := reason\<rparr>
                            else r\<lparr>rd_status := st\<rparr>) # post"
    using sr set_row_status_split [OF pre r, of post st reason] by (simp add: rows0)
  have nm: "name c0 = cn"
    using c0 by (rule lookup_name)
  have sv: "save (clearances w) (c0\<lparr>required_documents := rows\<rparr>) =
      Inr (auto_promote (c0\<lparr>required_documents := rows\<rparr>),
           db_update (clearances w) (auto_promote (c0\<lparr>required_documents := rows\<rparr>)))"
    by (rule save_same_status [where before = c0]) (simp_all add: nm c0)
  from assms c0 sr found sv
  have "c1 = auto_promote (c0\<lparr>required_documents := rows\<rparr>)"
    and "w1 = w\<lparr>clearances := db_update (clearances w) c1\<rparr>"
    by (auto simp: update_document_status_save_def get_doc_def split: if_splits)
  with c0 rows0 pre r rows show ?thesis by blast
qed

lemma db_set_value_twice:
  "(\<And>c. name (f c) = name c) \<Longrightarrow>
   db_set_value (db_set_value db n f) n g = db_set_value db n (\<lambda>c. g (f c))"
  by (simp add: db_set_value_def)

lemma find_clearance_of_invoice:
  "find (\<lambda>c. sales_invoice c = Some (si_name doc)) (clearances w) = Some c \<Longrightarrow>
   name c \<noteq> [] \<Longrightarrow>
   clearance_of_invoice w doc = Some (name c) \<and> truthy (Some (name c))"
  by (simp add: clearance_of_invoice_def truthy_def)

lemma payment_status_of_eq:
  "payment_status_of st =
     (if st = Some ''Paid'' then ''Paid''
      else if st = Some ''Partly Paid'' \<or> st = Some ''Partly Paid and Discounted''
      then ''Partially Paid'' else ''Pending'')"
  by (auto simp: payment_status_of_def)

lemma update_document_status_result:
  assumes "update_document_status w cn rn st reason = Inr (res, w')"
  shows "\<exists>c1 w1. update_document_status_save w cn rn st reason = Inr (c1, w1) \<and>
           name c1 = cn \<and> lookup_clearance (clearances w1) cn = Some c1 \<and>
           w' = promote_after_update c1 w1"
proof -
  from assms obtain c1 w1 where
    s: "update_document_status_save w cn rn st reason = Inr (c1, w1)"
    and w': "w' = promote_after_update c1 w1"
    by (auto simp: update_document_status_def split: sum.splits)
  from update_document_status_save_result [OF s] obtain c0 d where
    c0: "lookup_clearance (clearances w) cn = Some c0"
    and c1: "c1 = auto_promote (c0\<lparr>required_documents := d\<rparr>)"
    and w1: "w1 = w\<lparr>clearances := db_update (clearances w) c1\<rparr>"
    by blast
  have nm: "name c1 = cn"
    using c0 by (simp add: c1 lookup_name)
  have "lookup_clearance (clearances w1) cn = Some c1"
    by (simp add: w1 lookup_db_update nm c0)
  with s nm w' show ?thesis by blast
qed

lemma merge_payment_info_keeps [simp]:
  "name (merge_payment_info c pt amt br acct cid) = name c"
  "status (merge_payment_info c pt amt br acct cid) = status c"
  "required_documents (merge_payment_info c pt amt br acct cid) = required_documents c"
  by (simp_all add: merge_payment_info_def Let_def)

lemma merge_payment_info_first:
  "merge_payment_info c ''first'' amt br acct cid =
     c\<lparr>amount := (if truthy_num amt then amt else amount c),
       first_payment_branch := (if truthy br then br else first_payment_branch c),
       first_payment_account_number :=
         (if truthy acct then acct else first_payment_account_number c),
       first_payment_custom_id_code :=
         (if truthy cid then cid else first_payment_custom_id_code c)\<rparr>"
  by (simp add: merge_payment_info_def Let_def)

lemma merge_payment_info_second:
  "merge_payment_info c ''second'' amt br acct cid =
     c\<lparr>additional_payment_amount := (if truthy_num amt then amt else additional_payment_amount c),
       second_payment_branch := (if truthy br then br else second_payment_branch c),
       second_payment_account_number :=
         (if truthy acct then acct else second_payment_account_number c),
       second_payment_custom_id_code :=
         (if truthy cid then cid else second_payment_custom_id_code c)\<rparr>"
  by (simp add: merge_payment_info_def Let_def)

text \<open>The equations that evaluate a call on concrete records.\<close>

lemmas eval_defs = sample_world_def sample_contact_def sample_clearance_def sample_row_def
  linked_customer_def customer_of_contact_def truthy_def truthy_num_def
  lookup_clearance_def get_doc_def save_def validate_def auto_promote_def
  has_value_changed_status_def validate_status_transition_def db_update_def db_set_value_def

section \<open>The claims\<close>

text \<open>
  C1. A save of a clearance with a persisted version whose status differs: to
  \<open>Risk Analysis\<close> it succeeds when the persisted status is \<open>In Review\<close> or
  \<open>Risk Analysis\<close> and otherwise raises the validation error; to \<open>Cleared\<close> it succeeds
  when the persisted status is \<open>Risk Analysis\<close> or \<open>Cleared\<close> and otherwise raises the
  validation error. A save that keeps \<open>Risk Analysis\<close> or \<open>Cleared\<close> passes the guard,
  and succeeds.
\<close>

theorem transition_guard_on_save:
  "(lookup_clearance db (name doc) = Some before \<and> status before \<noteq> status doc \<and>
      status doc = ''Risk Analysis'' \<longrightarrow>
       (if status before \<in> {''In Review'', ''Risk Analysis''}
        then save db doc = Inr (doc, db_update db doc)
        else save db doc =
          Inl (ValidationError ''Status can only be changed to Risk Analysis from In Review'')))
   \<and> (lookup_clearance db (name doc) = Some before \<and> status before \<noteq> status doc \<and>
      status doc = ''Cleared'' \<longrightarrow>
       (if status before \<in> {''Risk Analysis'', ''Cleared''}
        then save db doc = Inr (doc, db_update db doc)
        else save db doc =
          Inl (ValidationError ''Status can only be changed to Cleared from Risk Analysis'')))
   \<and> (status before = status doc \<and> status doc \<in> {''Risk Analysis'', ''Cleared''} \<longrightarrow>
        validate_status_transition doc (Some before) = Inr () \<and>
        (lookup_clearance db (name doc) = Some before \<longrightarrow>
           save db doc = Inr (doc, db_update db doc)))"
  by (auto simp: save_def validate_guarded validate_status_transition_def)

theorem transition_guard_on_save_witness:
  "save [sample_clearance ''CC-1'' ''In Review'' None []]
        (sample_clearance ''CC-1'' ''Risk Analysis'' None [])
     = Inr (sample_clearance ''CC-1'' ''Risk Analysis'' None [],
            [sample_clearance ''CC-1'' ''Risk Analysis'' None []])
   \<and> save [sample_clearance ''CC-1'' ''Document Submitting'' None []]
        (sample_clearance ''CC-1'' ''Risk Analysis'' None [])
     = Inl (ValidationError ''Status can only be changed to Risk Analysis from In Review'')
   \<and> save [sample_clearance ''CC-1'' ''Risk Analysis'' None []]
        (sample_clearance ''CC-1'' ''Cleared'' None [])
     = Inr (sample_clearance ''CC-1'' ''Cleared'' None [],
            [sample_clearance ''CC-1'' ''Cleared'' None []])
   \<and> save [sample_clearance ''CC-1'' ''In Review'' None []]
        (sample_clearance ''CC-1'' ''Cleared'' None [])
     = Inl (ValidationError ''Status can only be changed to Cleared from Risk Analysis'')
   \<and> save [sample_clearance ''CC-1'' ''Cleared'' None []]
        (sample_clearance ''CC-1'' ''Cleared'' None [])
     = Inr (sample_clearance ''CC-1'' ''Cleared'' None [],
            [sample_clearance ''CC-1'' ''Cleared'' None []])"
  using
    transition_guard_on_save [of "[sample_clearance ''CC-1'' ''In Review'' None []]"
      "sample_clearance ''CC-1'' ''Risk Analysis'' None []"
      "sample_clearance ''CC-1'' ''In Review'' None []"]
    transition_guard_on_save [of "[sample_clearance ''CC-1'' ''Document Submitting'' None []]"
      "sample_clearance ''CC-1'' ''Risk Analysis'' None []"
      "sample_clearance ''CC-1'' ''Document Submitting'' None []"]
    transition_guard_on_save [of "[sample_clearance ''CC-1'' ''Risk Analysis'' None []]"
      "sample_clearance ''CC-1'' ''Cleared'' None []"
      "sample_clearance ''CC-1'' ''Risk Analysis'' None []"]
    transition_guard_on_save [of "[sample_clearance ''CC-1'' ''In Review'' None []]"
      "sample_clearance ''CC-1'' ''Cleared'' None []"
      "sample_clearance ''CC-1'' ''In Review'' None []"]
    transition_guard_on_save [of "[sample_clearance ''CC-1'' ''Cleared'' None []]"
      "sample_clearance ''CC-1'' ''Cleared'' None []"
      "sample_clearance ''CC-1'' ''Cleared'' None []"]
  by (simp add: sample_clearance_def lookup_clearance_def db_update_def)



text \<open>
  C3, at a concrete input. The user is linked, through a contact, to customer \<open>CUST-B\<close>
  and holds the role Customer; the clearance belongs to customer \<open>CUST-A\<close>. The call
  succeeds and the status goes from \<open>In Review\<close> to \<open>Risk Analysis\<close>.
\<close>

theorem update_clearance_status_by_other_customer:
  "linked_customer other_customer_world = Some ''CUST-B''
   \<and> ''Customer'' \<in> set (session_roles other_customer_world)
   \<and> map_option status (lookup_clearance (clearances other_customer_world) ''CC-1'')
       = Some ''In Review''
   \<and> update_clearance_status other_customer_world ''CC-1'' ''Risk Analysis'' None None
       = Inr ((True, ''Status updated successfully''),
              other_customer_world
                \<lparr>clearances := [sample_clearance ''CC-1'' ''Risk Analysis'' None []]\<rparr>)"
  by (simp add: other_customer_world_def sample_world_def sample_contact_def
      sample_clearance_def linked_customer_def customer_of_contact_def truthy_def
      lookup_clearance_def update_clearance_status_def get_doc_def truthy_num_def
      save_def validate_def auto_promote_def has_value_changed_status_def
      validate_status_transition_def db_update_def)

text \<open>The customer of the clearance itself is refused, whatever the target status.\<close>

lemma update_clearance_status_own_customer:
  assumes "session_user w \<noteq> ''Administrator''"
    and "lookup_clearance (clearances w) cn = Some c"
    and "truthy (linked_customer w)" and "customer c = linked_customer w"
  shows "\<exists>m. update_clearance_status w cn st comment amt = Inl (PermissionError m)"
  using assms by (simp add: update_clearance_status_def get_doc_def)

text \<open>
  C4 as stated fails. A clearance in \<open>Document Submitting\<close> with the mandatory row
  \<open>r1\<close> and the optional row \<open>r2\<close>; the administrator sets \<open>r1\<close> to
  \<open>Accepted\<close>, after which every mandatory row is accepted. The call succeeds and the
  status in the table is \<open>In Review\<close>, not \<open>Review\<close>: the save inside the call has
  promoted the clearance, so the test of line 274 fails and line 283 does not run.
\<close>

theorem update_document_status_mandatory_accepted_in_review:
  "lookup_clearance (clearances (mandatory_row_world False)) ''CC-1''
     = Some (sample_clearance ''CC-1'' ''Document Submitting'' None
               [sample_row ''r1'' True ''In Review'' None,
                sample_row ''r2'' False ''In Review'' None])
   \<and> update_document_status (mandatory_row_world False) ''CC-1'' ''r1'' ''Accepted'' None
     = Inr ((True, ''Document status updated successfully''),
            (mandatory_row_world False)\<lparr>clearances :=
              [sample_clearance ''CC-1'' ''In Review'' None
                 [sample_row ''r1'' True ''Accepted'' None,
                  sample_row ''r2'' False ''In Review'' None]]\<rparr>)
   \<and> status (sample_clearance ''CC-1'' ''In Review'' None
                 [sample_row ''r1'' True ''Accepted'' None,
                  sample_row ''r2'' False ''In Review'' None]) \<noteq> ''Review''"
  by (simp add: mandatory_row_world_def update_document_status_def
      update_document_status_save_def promote_after_update_def eval_defs)

text \<open>
  C4, amended. A call of \<^verbatim>\<open>update_document_status\<close> that succeeds on a clearance
  persisted in \<open>Document Submitting\<close> has saved the clearance, through the save that runs
  the validation, with the row's new status (and the reason, when one is given). If some
  row is then mandatory and every mandatory row is \<open>Accepted\<close>, that save has set the
  status to \<open>In Review\<close>, and the table after the call is the table after the save: the
  write of \<open>Review\<close> does not run. If some mandatory row is not \<open>Accepted\<close>, the status
  stays \<open>Document Submitting\<close>, and again nothing is written after the save.
\<close>

theorem update_document_status_promotes_in_save:
  assumes success: "update_document_status w cn rn st reason = Inr (res, w')"
    and c0: "lookup_clearance (clearances w) cn = Some c0"
    and ds: "status c0 = ''Document Submitting''"
  shows "\<exists>c1 w1.
           update_document_status_save w cn rn st reason = Inr (c1, w1) \<and>
           save (clearances w) (c0\<lparr>required_documents := required_documents c1\<rparr>)
             = Inr (c1, clearances w1) \<and>
           lookup_clearance (clearances w1) cn = Some c1 \<and>
           (\<exists>r \<in> set (required_documents c1).
              rd_name r = rn \<and> rd_status r = st \<and> (truthy reason \<longrightarrow> rd_reason r = reason)) \<and>
           ((\<exists>r \<in> set (required_documents c1). is_required r) \<and>
            (\<forall>r \<in> set (required_documents c1). is_required r \<longrightarrow> rd_status r = ''Accepted'')
            \<longrightarrow> status c1 = ''In Review'' \<and> w' = w1 \<and>
                lookup_clearance (clearances w') cn = Some c1) \<and>
           ((\<exists>r \<in> set (required_documents c1). is_required r \<and> rd_status r \<noteq> ''Accepted'')
            \<longrightarrow> status c1 = ''Document Submitting'' \<and> w' = w1 \<and>
                lookup_clearance (clearances w') cn = Some c1)"
proof -
  from update_document_status_result [OF success] obtain c1 w1 where
    s: "update_document_status_save w cn rn st reason = Inr (c1, w1)"
    and nm: "name c1 = cn"
    and stored: "lookup_clearance (clearances w1) cn = Some c1"
    and w': "w' = promote_after_update c1 w1"
    by blast
  from update_document_status_save_result [OF s] c0 obtain pre r post where
    r: "rd_name r = rn"
    and c1: "c1 = auto_promote (c0\<lparr>required_documents :=
                  pre @ (if truthy reason then r\<lparr>rd_status := st, rd_reason := reason\<rparr>
                         else r\<lparr>rd_status := st\<rparr>) # post\<rparr>)"
    and w1: "w1 = w\<lparr>clearances := db_update (clearances w) c1\<rparr>"
    by auto
  let ?d = "c0\<lparr>required_documents :=
                  pre @ (if truthy reason then r\<lparr>rd_status := st, rd_reason := reason\<rparr>
                         else r\<lparr>rd_status := st\<rparr>) # post\<rparr>"
  have d: "c0\<lparr>required_documents := required_documents c1\<rparr> = ?d"
    by (simp add: c1)
  have nm0: "name c0 = cn"
    using c0 by (rule lookup_name)
  have "save (clearances w) ?d = Inr (auto_promote ?d, db_update (clearances w) (auto_promote ?d))"
    by (rule save_same_status [where before = c0]) (simp_all add: nm0 c0)
  then have saved: "save (clearances w) (c0\<lparr>required_documents := required_documents c1\<rparr>)
      = Inr (c1, clearances w1)"
    unfolding d by (simp add: c1 w1)
  have row: "\<exists>x \<in> set (required_documents c1).
      rd_name x = rn \<and> rd_status x = st \<and> (truthy reason \<longrightarrow> rd_reason x = reason)"
    by (simp add: c1 r)
  have promoted: "status c1 = ''In Review'' \<and> w' = w1 \<and>
      lookup_clearance (clearances w') cn = Some c1"
    if "\<exists>x \<in> set (required_documents c1). is_required x"
      and "\<forall>x \<in> set (required_documents c1). is_required x \<longrightarrow> rd_status x = ''Accepted''"
  proof -
    from that ds have "status c1 = ''In Review''"
      unfolding c1 by (subst auto_promote_status) auto
    then show ?thesis
      by (simp add: w' promote_after_update_def stored)
  qed
  have kept: "status c1 = ''Document Submitting'' \<and> w' = w1 \<and>
      lookup_clearance (clearances w') cn = Some c1"
    if "\<exists>x \<in> set (required_documents c1). is_required x \<and> rd_status x \<noteq> ''Accepted''"
  proof -
    from that ds have "status c1 = ''Document Submitting''"
      unfolding c1 by (subst auto_promote_status) auto
    moreover from that have "\<not> scan_accepted (required_documents c1) True"
      by (auto simp: scan_accepted_eq)
    ultimately show ?thesis
      by (simp add: w' promote_after_update_def stored)
  qed
  from s saved stored row promoted kept show ?thesis by blast
qed

theorem update_document_status_promotes_in_save_witness:
  "update_document_status (mandatory_row_world False) ''CC-1'' ''r1'' ''Accepted''
       (Some ''checked'')
     = Inr ((True, ''Document status updated successfully''),
            (mandatory_row_world False)\<lparr>clearances :=
              [sample_clearance ''CC-1'' ''In Review'' None
                 [sample_row ''r1'' True ''Accepted'' (Some ''checked''),
                  sample_row ''r2'' False ''In Review'' None]]\<rparr>)
   \<and> update_document_status (mandatory_row_world True) ''CC-1'' ''r1'' ''Accepted''
       (Some ''checked'')
     = Inr ((True, ''Document status updated successfully''),
            (mandatory_row_world True)\<lparr>clearances :=
              [sample_clearance ''CC-1'' ''Document Submitting'' None
                 [sample_row ''r1'' True ''Accepted'' (Some ''checked''),
                  sample_row ''r2'' True ''In Review'' None]]\<rparr>)"
proof -
  have c0: "lookup_clearance (clearances (mandatory_row_world b)) ''CC-1''
      = Some (sample_clearance ''CC-1'' ''Document Submitting'' None
               [sample_row ''r1'' True ''In Review'' None,
                sample_row ''r2'' b ''In Review'' None])" for b
    by (simp add: mandatory_row_world_def sample_world_def sample_clearance_def
        lookup_clearance_def)
  have ds: "status (sample_clearance ''CC-1'' ''Document Submitting'' None rows)
      = ''Document Submitting''" for rows
    by (simp add: sample_clearance_def)
  have s: "update_document_status_save (mandatory_row_world b) ''CC-1'' ''r1'' ''Accepted''
             (Some ''checked'')
      = Inr (sample_clearance ''CC-1'' (if b then ''Document Submitting'' else ''In Review'') None
               [sample_row ''r1'' True ''Accepted'' (Some ''checked''),
                sample_row ''r2'' b ''In Review'' None],
             (mandatory_row_world b)\<lparr>clearances :=
               [sample_clearance ''CC-1'' (if b then ''Document Submitting'' else ''In Review'')
                  None
                  [sample_row ''r1'' True ''Accepted'' (Some ''checked''),
                   sample_row ''r2'' b ''In Review'' None]]\<rparr>)" for b
    by (simp add: mandatory_row_world_def update_document_status_save_def eval_defs)
  let ?c = "\<lambda>b. sample_clearance ''CC-1'' (if b then ''Document Submitting'' else ''In Review'')
               None
               [sample_row ''r1'' True ''Accepted'' (Some ''checked''),
                sample_row ''r2'' b ''In Review'' None]"
  let ?w = "\<lambda>b. (mandatory_row_world b)\<lparr>clearances := [?c b]\<rparr>"
  have h: "update_document_status (mandatory_row_world b) ''CC-1'' ''r1'' ''Accepted''
             (Some ''checked'')
      = Inr ((True, ''Document status updated successfully''),
             promote_after_update (?c b) (?w b))" for b
    by (simp add: update_document_status_def s)
  from update_document_status_promotes_in_save [OF h [of False] c0 ds] s [of False]
  have a: "promote_after_update (?c False) (?w False) = ?w False"
    by (auto simp: sample_clearance_def sample_row_def)
  from update_document_status_promotes_in_save [OF h [of True] c0 ds] s [of True]
  have b: "promote_after_update (?c True) (?w True) = ?w True"
    by (auto simp: sample_clearance_def sample_row_def)
  from h [of False] h [of True] a b show ?thesis by simp
qed

text \<open>
  The write after the save, when it runs: the saved clearance is still in
  \<open>Document Submitting\<close>, has rows, and none of its mandatory rows is unaccepted. The
  table after the call is then the table after the save with the column status of that
  clearance overwritten by \<open>Review\<close>, with no validation in between.
\<close>

lemma update_document_status_direct_write:
  assumes "update_document_status w cn rn st reason = Inr (res, w')"
  shows "\<exists>clearance w1.
           update_document_status_save w cn rn st reason = Inr (clearance, w1) \<and>
           lookup_clearance (clearances w1) cn = Some clearance \<and>
           (\<exists>r \<in> set (required_documents clearance).
              rd_name r = rn \<and> rd_status r = st \<and> (truthy reason \<longrightarrow> rd_reason r = reason)) \<and>
           (status clearance = ''Document Submitting'' \<and> required_documents clearance \<noteq> [] \<and>
            (\<forall>r \<in> set (required_documents clearance).
               is_required r \<longrightarrow> rd_status r = ''Accepted'')
            \<longrightarrow> clearances w' =
                  db_set_value (clearances w1) cn (\<lambda>c. c\<lparr>status := ''Review''\<rparr>) \<and>
                lookup_clearance (clearances w') cn = Some (clearance\<lparr>status := ''Review''\<rparr>))"
proof -
  from assms obtain c1 w1 where
    s: "update_document_status_save w cn rn st reason = Inr (c1, w1)"
    and w': "w' = promote_after_update c1 w1"
    by (auto simp: update_document_status_def split: sum.splits)
  from update_document_status_save_result [OF s] obtain c0 pre r post where
    c0: "lookup_clearance (clearances w) cn = Some c0"
    and c1: "c1 = auto_promote (c0\<lparr>required_documents :=
                  pre @ (if truthy reason then r\<lparr>rd_status := st, rd_reason := reason\<rparr>
                         else r\<lparr>rd_status := st\<rparr>) # post\<rparr>)"
    and r: "rd_name r = rn"
    and w1: "w1 = w\<lparr>clearances := db_update (clearances w) c1\<rparr>"
    by blast
  have nm: "name c1 = cn"
    using c0 by (simp add: c1 lookup_name)
  have stored: "lookup_clearance (clearances w1) cn = Some c1"
    by (simp add: w1 lookup_db_update nm c0)
  have row: "\<exists>x \<in> set (required_documents c1).
      rd_name x = rn \<and> rd_status x = st \<and> (truthy reason \<longrightarrow> rd_reason x = reason)"
    by (simp add: c1 r)
  have forced: "clearances w' = db_set_value (clearances w1) cn (\<lambda>c. c\<lparr>status := ''Review''\<rparr>)
      \<and> lookup_clearance (clearances w') cn = Some (c1\<lparr>status := ''Review''\<rparr>)"
    if "status c1 = ''Document Submitting''" and "required_documents c1 \<noteq> []"
      and "\<forall>x \<in> set (required_documents c1). is_required x \<longrightarrow> rd_status x = ''Accepted''"
  proof -
    from that have "clearances w' =
        db_set_value (clearances w1) cn (\<lambda>c. c\<lparr>status := ''Review''\<rparr>)"
      by (simp add: w' promote_after_update_def scan_accepted_eq nm)
    then show ?thesis
      by (simp add: lookup_db_set_value stored)
  qed
  from s stored row forced show ?thesis by blast
qed

text \<open>
  When the write of \<open>Review\<close> happens, the clearance has no mandatory row: with one, the
  save has already moved the status to \<open>In Review\<close>.
\<close>

lemma forced_review_only_without_mandatory_row:
  assumes "update_document_status_save w cn rn st reason = Inr (clearance, w1)"
    and "status clearance = ''Document Submitting''"
    and "\<forall>r \<in> set (required_documents clearance). is_required r \<longrightarrow> rd_status r = ''Accepted''"
  shows "\<forall>r \<in> set (required_documents clearance). \<not> is_required r"
proof -
  from update_document_status_save_result [OF assms(1)] obtain d where
    c1: "clearance = auto_promote d" by blast
  from assms(2) have "status (auto_promote d) = ''Document Submitting''"
    by (simp add: c1)
  then have "\<not> ((\<exists>r \<in> set (required_documents d). is_required r) \<and>
      (\<forall>r \<in> set (required_documents d). is_required r \<longrightarrow> rd_status r = ''Accepted'')
      \<and> required_documents d \<noteq> [] \<and> status d = ''Document Submitting'')"
    by (auto simp: auto_promote_status split: if_splits)
  moreover from assms(2) have "status d = ''Document Submitting''"
    by (auto simp: c1 auto_promote_status split: if_splits)
  ultimately show ?thesis
    using assms(3) by (auto simp: c1)
qed

text \<open>
  C10. A clearance in \<open>Document Submitting\<close> whose rows are all optional: a call of
  \<^verbatim>\<open>update_document_status\<close> that succeeds leaves the status \<open>Review\<close> in the table,
  although the save inside the call did not promote the clearance.
\<close>

theorem optional_rows_only_forced_to_review:
  assumes "lookup_clearance (clearances w) cn = Some c"
    and "status c = ''Document Submitting''"
    and "\<forall>r \<in> set (required_documents c). \<not> is_required r"
    and "update_document_status w cn rn st reason = Inr (res, w')"
  shows "required_documents c \<noteq> []
         \<and> (\<exists>c1 w1. update_document_status_save w cn rn st reason = Inr (c1, w1) \<and>
               lookup_clearance (clearances w1) cn = Some c1 \<and>
               status c1 = ''Document Submitting'')
         \<and> map_option status (lookup_clearance (clearances w') cn) = Some ''Review''"
proof -
  from update_document_status_result [OF assms(4)] obtain c1 w1 where
    s: "update_document_status_save w cn rn st reason = Inr (c1, w1)"
    and nm: "name c1 = cn"
    and stored: "lookup_clearance (clearances w1) cn = Some c1"
    and w': "w' = promote_after_update c1 w1"
    by blast
  from update_document_status_save_result [OF s] assms(1) obtain pre r post where
    rows0: "required_documents c = pre @ r # post"
    and c1: "c1 = auto_promote (c\<lparr>required_documents :=
                  pre @ (if truthy reason then r\<lparr>rd_status := st, rd_reason := reason\<rparr>
                         else r\<lparr>rd_status := st\<rparr>) # post\<rparr>)"
    by auto
  have opt: "\<forall>x \<in> set (required_documents c1). \<not> is_required x"
    using assms(3) by (auto simp: c1 rows0)
  then have st1: "status c1 = ''Document Submitting''"
    using assms(2) by (simp add: c1 auto_promote_status)
  have ne: "required_documents c1 \<noteq> []"
    by (simp add: c1)
  have "clearances w' = db_set_value (clearances w1) cn (\<lambda>c. c\<lparr>status := ''Review''\<rparr>)"
    using st1 ne opt by (simp add: w' promote_after_update_def scan_accepted_eq nm)
  then have "lookup_clearance (clearances w') cn = Some (c1\<lparr>status := ''Review''\<rparr>)"
    by (simp add: lookup_db_set_value stored)
  with s stored st1 rows0 show ?thesis by auto
qed

theorem optional_rows_only_forced_to_review_witness:
  "update_document_status optional_rows_world ''CC-1'' ''r1'' ''Accepted'' None
     = Inr ((True, ''Document status updated successfully''),
            optional_rows_world\<lparr>clearances :=
              [sample_clearance ''CC-1'' ''Review'' None
                 [sample_row ''r1'' False ''Accepted'' None]]\<rparr>)
   \<and> map_option status (lookup_clearance
        (clearances (optional_rows_world\<lparr>clearances :=
              [sample_clearance ''CC-1'' ''Review'' None
                 [sample_row ''r1'' False ''Accepted'' None]]\<rparr>)) ''CC-1'')
     = Some ''Review''
   \<and> validate (sample_clearance ''CC-1'' ''Document Submitting'' None
                 [sample_row ''r1'' False ''Accepted'' None]) None
     = Inr (sample_clearance ''CC-1'' ''Document Submitting'' None
                 [sample_row ''r1'' False ''Accepted'' None])"
proof -
  have h: "update_document_status optional_rows_world ''CC-1'' ''r1'' ''Accepted'' None
     = Inr ((True, ''Document status updated successfully''),
            optional_rows_world\<lparr>clearances :=
              [sample_clearance ''CC-1'' ''Review'' None
                 [sample_row ''r1'' False ''Accepted'' None]]\<rparr>)"
    by (simp add: optional_rows_world_def update_document_status_def
        update_document_status_save_def promote_after_update_def eval_defs)
  have c: "lookup_clearance (clearances optional_rows_world) ''CC-1''
      = Some (sample_clearance ''CC-1'' ''Document Submitting'' None
               [sample_row ''r1'' False ''In Review'' None])"
    by (simp add: optional_rows_world_def sample_world_def lookup_clearance_def
        sample_clearance_def)
  have v: "validate (sample_clearance ''CC-1'' ''Document Submitting'' None
                 [sample_row ''r1'' False ''Accepted'' None]) None
     = Inr (sample_clearance ''CC-1'' ''Document Submitting'' None
                 [sample_row ''r1'' False ''Accepted'' None])"
    by (simp add: eval_defs)
  from optional_rows_only_forced_to_review [OF c _ _ h] h v show ?thesis
    by (simp add: sample_clearance_def sample_row_def)
qed

text \<open>
  C5. A call of \<^verbatim>\<open>update_document_attachment\<close> by the administrator or by the
  customer of the clearance, on a row that exists (the first row of that name), succeeds
  and saves the clearance with that row changed and the others as they were: the
  attachment is the file given; if the flag is set and the row is \<open>Declined\<close>, its status
  is \<open>In Review\<close> and its reason is cleared; otherwise status and reason are untouched.
\<close>

theorem update_document_attachment_effect:
  assumes user: "session_user w \<noteq> ''Guest''"
    and auth: "session_user w = ''Administrator'' \<or>
               (truthy (linked_customer w) \<and> customer c = linked_customer w)"
    and c: "lookup_clearance (clearances w) cn = Some c"
    and rows: "required_documents c = pre @ r # post"
    and r: "rd_name r = rn" and pre: "\<forall>x \<in> set pre. rd_name x \<noteq> rn"
  shows "\<exists>w' c'.
           update_document_attachment w cn rn file_url is_reupload =
             Inr ((True, ''Document attached successfully''), w') \<and>
           lookup_clearance (clearances w') cn = Some c' \<and>
           required_documents c' =
             pre @ r\<lparr>rd_attachment := file_url,
                     rd_status := (if is_reupload \<and> rd_status r = ''Declined''
                                   then ''In Review'' else rd_status r),
                     rd_reason := (if is_reupload \<and> rd_status r = ''Declined''
                                   then None else rd_reason r)\<rparr> # post"
proof -
  let ?r' = "if is_reupload \<and> rd_status r = ''Declined''
             then r\<lparr>rd_attachment := file_url, rd_status := ''In Review'', rd_reason := None\<rparr>
             else r\<lparr>rd_attachment := file_url\<rparr>"
  let ?doc = "c\<lparr>required_documents := pre @ ?r' # post\<rparr>"
  have ar: "attach_row (required_documents c) rn file_url is_reupload = (True, pre @ ?r' # post)"
    unfolding rows by (rule attach_row_split [OF pre r])
  have nm: "name c = cn"
    using c by (rule lookup_name)
  have sv: "save (clearances w) ?doc =
      Inr (auto_promote ?doc, db_update (clearances w) (auto_promote ?doc))"
    by (rule save_same_status [where before = c]) (simp_all add: nm c)
  have call: "update_document_attachment w cn rn file_url is_reupload =
      Inr ((True, ''Document attached successfully''),
           w\<lparr>clearances := db_update (clearances w) (auto_promote ?doc)\<rparr>)"
    using user auth c
    by (auto simp: update_document_attachment_def get_doc_def ar sv)
  have stored: "lookup_clearance
      (clearances (w\<lparr>clearances := db_update (clearances w) (auto_promote ?doc)\<rparr>)) cn
      = Some (auto_promote ?doc)"
    by (simp add: lookup_db_update nm c)
  have rows': "required_documents (auto_promote ?doc) =
      pre @ r\<lparr>rd_attachment := file_url,
              rd_status := (if is_reupload \<and> rd_status r = ''Declined''
                            then ''In Review'' else rd_status r),
              rd_reason := (if is_reupload \<and> rd_status r = ''Declined''
                            then None else rd_reason r)\<rparr> # post"
    by simp
  from call stored rows' show ?thesis by blast
qed

theorem update_document_attachment_effect_witness:
  "(\<exists>w'. update_document_attachment declined_row_world ''CC-1'' ''r1'' (Some ''/files/bl.pdf'') True
           = Inr ((True, ''Document attached successfully''), w') \<and>
         map_option required_documents (lookup_clearance (clearances w') ''CC-1'')
           = Some [\<lparr>rd_name = ''r1'', document_name = ''Bill of Lading'', is_required = True,
                    rd_status = ''In Review'', rd_reason = None,
                    rd_attachment = Some ''/files/bl.pdf''\<rparr>])
   \<and> (\<exists>w'. update_document_attachment declined_row_world ''CC-1'' ''r1'' (Some ''/files/bl.pdf'') False
           = Inr ((True, ''Document attached successfully''), w') \<and>
         map_option required_documents (lookup_clearance (clearances w') ''CC-1'')
           = Some [\<lparr>rd_name = ''r1'', document_name = ''Bill of Lading'', is_required = True,
                    rd_status = ''Declined'', rd_reason = Some ''page missing'',
                    rd_attachment = Some ''/files/bl.pdf''\<rparr>])"
proof -
  have user: "session_user declined_row_world \<noteq> ''Guest''"
    by (simp add: declined_row_world_def sample_world_def)
  have c: "lookup_clearance (clearances declined_row_world) ''CC-1''
      = Some (sample_clearance ''CC-1'' ''Document Submitting'' None
               [sample_row ''r1'' True ''Declined'' (Some ''page missing'')])"
    by (simp add: declined_row_world_def sample_world_def lookup_clearance_def
        sample_clearance_def)
  have auth: "session_user declined_row_world = ''Administrator'' \<or>
      (truthy (linked_customer declined_row_world) \<and>
       customer (sample_clearance ''CC-1'' ''Document Submitting'' None
               [sample_row ''r1'' True ''Declined'' (Some ''page missing'')])
         = linked_customer declined_row_world)"
    by (simp add: declined_row_world_def eval_defs)
  have rows: "required_documents (sample_clearance ''CC-1'' ''Document Submitting'' None
               [sample_row ''r1'' True ''Declined'' (Some ''page missing'')])
      = [] @ sample_row ''r1'' True ''Declined'' (Some ''page missing'') # []"
    by (simp add: sample_clearance_def)
  have r: "rd_name (sample_row ''r1'' True ''Declined'' (Some ''page missing'')) = ''r1''"
    by (simp add: sample_row_def)
  have pre: "\<forall>x \<in> set []. rd_name x \<noteq> ''r1''"
    by simp
  from update_document_attachment_effect [OF user auth c rows r pre, of "Some ''/files/bl.pdf''" True]
       update_document_attachment_effect [OF user auth c rows r pre, of "Some ''/files/bl.pdf''" False]
  show ?thesis
    by (simp add: sample_row_def)
qed

text \<open>
  C6. An invoice to which a clearance refers changes its status. The call writes two
  columns of that clearance and nothing else: the payment status is \<open>Paid\<close> for an
  invoice status \<open>Paid\<close>, \<open>Partially Paid\<close> for \<open>Partly Paid\<close> and
  \<open>Partly Paid and Discounted\<close>, and \<open>Pending\<close> for every other value; the payment
  date is today's date when the invoice status is \<open>Paid\<close> and is left as it was
  otherwise. The column status of no clearance changes, and no validation runs.
\<close>

theorem payment_mirror_on_invoice_status:
  assumes "find (\<lambda>c. sales_invoice c = Some (si_name doc)) (clearances w) = Some c"
    and "name c \<noteq> []"
  shows "update_clearance_payment_status w doc event =
           w\<lparr>clearances := db_set_value (clearances w) (name c)
               (\<lambda>x. x\<lparr>payment_status :=
                         (if si_status doc = Some ''Paid'' then ''Paid''
                          else if si_status doc = Some ''Partly Paid'' \<or>
                                  si_status doc = Some ''Partly Paid and Discounted''
                          then ''Partially Paid'' else ''Pending''),
                       payment_date :=
                         (if si_status doc = Some ''Paid'' then Some (today w)
                          else payment_date x)\<rparr>)\<rparr>
         \<and> c\<lparr>payment_status :=
                 (if si_status doc = Some ''Paid'' then ''Paid''
                  else if si_status doc = Some ''Partly Paid'' \<or>
                          si_status doc = Some ''Partly Paid and Discounted''
                  then ''Partially Paid'' else ''Pending''),
               payment_date :=
                 (if si_status doc = Some ''Paid'' then Some (today w) else payment_date c)\<rparr>
             \<in> set (clearances (update_clearance_payment_status w doc event))
         \<and> map status (clearances (update_clearance_payment_status w doc event))
             = map status (clearances w)"
proof -
  let ?upd = "\<lambda>x. x\<lparr>payment_status :=
                         (if si_status doc = Some ''Paid'' then ''Paid''
                          else if si_status doc = Some ''Partly Paid'' \<or>
                                  si_status doc = Some ''Partly Paid and Discounted''
                          then ''Partially Paid'' else ''Pending''),
                       payment_date :=
                         (if si_status doc = Some ''Paid'' then Some (today w)
                          else payment_date x)\<rparr>"
  note n = find_clearance_of_invoice [OF assms]
  have eq: "update_clearance_payment_status w doc event =
      w\<lparr>clearances := db_set_value (clearances w) (name c) ?upd\<rparr>"
  proof (cases "si_status doc = Some ''Paid''")
    case True
    then show ?thesis
      using n by (simp add: update_clearance_payment_status_def Let_def payment_status_of_eq
          db_set_value_twice)
  next
    case False
    then show ?thesis
      using n by (simp add: update_clearance_payment_status_def Let_def payment_status_of_eq)
  qed
  from assms(1) have "c \<in> set (clearances w)"
    by (auto simp: find_Some_iff)
  then have mem: "?upd c \<in> set (db_set_value (clearances w) (name c) ?upd)"
    by (force simp: db_set_value_def)
  have st: "map status (db_set_value (clearances w) (name c) ?upd) = map status (clearances w)"
    by (simp add: db_set_value_def)
  show ?thesis
    unfolding eq using mem st by simp
qed


theorem payment_mirror_on_invoice_status_witness:
  "update_clearance_payment_status (invoiced_world ''Cleared'')
       (sample_invoice ''SINV-7'' ''Paid'') ''on_update''
     = (invoiced_world ''Cleared'')\<lparr>clearances :=
         [(sample_clearance ''CC-1'' ''Cleared'' (Some ''SINV-7'') [])
            \<lparr>payment_status := ''Paid'', payment_date := Some ''2026-01-15''\<rparr>]\<rparr>
   \<and> update_clearance_payment_status (invoiced_world ''Cleared'')
       (sample_invoice ''SINV-7'' ''Partly Paid and Discounted'') ''on_update''
     = (invoiced_world ''Cleared'')\<lparr>clearances :=
         [(sample_clearance ''CC-1'' ''Cleared'' (Some ''SINV-7'') [])
            \<lparr>payment_status := ''Partially Paid''\<rparr>]\<rparr>
   \<and> update_clearance_payment_status (invoiced_world ''Cleared'')
       (sample_invoice ''SINV-7'' ''Written Off'') ''on_update''
     = (invoiced_world ''Cleared'')\<lparr>clearances :=
         [(sample_clearance ''CC-1'' ''Cleared'' (Some ''SINV-7'') [])
            \<lparr>payment_status := ''Pending''\<rparr>]\<rparr>"
proof -
  have f: "find (\<lambda>c. sales_invoice c = Some (si_name (sample_invoice ''SINV-7'' st)))
             (clearances (invoiced_world ''Cleared''))
      = Some (sample_clearance ''CC-1'' ''Cleared'' (Some ''SINV-7'') [])" for st
    by (simp add: invoiced_world_def sample_world_def sample_clearance_def sample_invoice_def)
  have n: "name (sample_clearance ''CC-1'' ''Cleared'' (Some ''SINV-7'') []) \<noteq> []"
    by (simp add: sample_clearance_def)
  from payment_mirror_on_invoice_status [OF f [of "''Paid''"] n, where event = "''on_update''"]
       payment_mirror_on_invoice_status [OF f [of "''Partly Paid and Discounted''"] n,
         where event = "''on_update''"]
       payment_mirror_on_invoice_status [OF f [of "''Written Off''"] n,
         where event = "''on_update''"]
  show ?thesis
    by (simp add: invoiced_world_def sample_world_def sample_clearance_def sample_invoice_def
        db_set_value_def)
qed

text \<open>
  C7. An invoice to which a clearance refers is cancelled. Afterwards the clearance has no
  invoice reference, payment status \<open>Pending\<close> and no payment date; its status is
  \<open>Review\<close> if it was \<open>Green\<close>, \<open>Yellow\<close> or \<open>Red\<close>, and is unchanged otherwise.
  Clearances of other names are as they were. The clearance is the row its name reads.
\<close>

theorem invoice_cancel_resets_clearance:
  assumes "find (\<lambda>c. sales_invoice c = Some (si_name doc)) (clearances w) = Some c"
    and "name c \<noteq> []"
    and "lookup_clearance (clearances w) (name c) = Some c"
  shows "lookup_clearance (clearances (handle_sales_invoice_cancel w doc event)) (name c) =
           Some (c\<lparr>sales_invoice := None, payment_status := ''Pending'', payment_date := None,
                   status := (if status c = ''Green'' \<or> status c = ''Yellow'' \<or> status c = ''Red''
                              then ''Review'' else status c)\<rparr>)
         \<and> (\<forall>m. m \<noteq> name c \<longrightarrow>
               lookup_clearance (clearances (handle_sales_invoice_cancel w doc event)) m =
               lookup_clearance (clearances w) m)"
proof -
  note n = find_clearance_of_invoice [OF assms(1,2)]
  let ?db3 = "db_set_value (clearances w) (name c)
      (\<lambda>x. x\<lparr>sales_invoice := None, payment_status := ''Pending'', payment_date := None\<rparr>)"
  have cur: "map_option status (lookup_clearance ?db3 (name c)) = Some (status c)"
    by (simp add: lookup_db_set_value assms(3))
  have eq: "clearances (handle_sales_invoice_cancel w doc event) =
      (if status c = ''Green'' \<or> status c = ''Yellow'' \<or> status c = ''Red''
       then db_set_value ?db3 (name c) (\<lambda>x. x\<lparr>status := ''Review''\<rparr>) else ?db3)"
    using n cur
    by (auto simp: handle_sales_invoice_cancel_def Let_def db_set_value_twice)
  show ?thesis
    unfolding eq by (simp add: lookup_db_set_value assms(3))
qed


theorem invoice_cancel_resets_clearance_witness:
  "lookup_clearance (clearances (handle_sales_invoice_cancel (invoiced_world ''Yellow'')
       (sample_invoice ''SINV-7'' ''Cancelled'') ''on_cancel'')) ''CC-1''
     = Some (sample_clearance ''CC-1'' ''Review'' None [])
   \<and> lookup_clearance (clearances (handle_sales_invoice_cancel (invoiced_world ''Risk Analysis'')
       (sample_invoice ''SINV-7'' ''Cancelled'') ''on_cancel'')) ''CC-1''
     = Some (sample_clearance ''CC-1'' ''Risk Analysis'' None [])"
proof -
  have f: "find (\<lambda>c. sales_invoice c = Some (si_name (sample_invoice ''SINV-7'' ''Cancelled'')))
             (clearances (invoiced_world st))
      = Some (sample_clearance ''CC-1'' st (Some ''SINV-7'') [])" for st
    by (simp add: invoiced_world_def sample_world_def sample_clearance_def sample_invoice_def)
  have n: "name (sample_clearance ''CC-1'' st (Some ''SINV-7'') []) \<noteq> []" for st
    by (simp add: sample_clearance_def)
  have l: "lookup_clearance (clearances (invoiced_world st))
             (name (sample_clearance ''CC-1'' st (Some ''SINV-7'') []))
      = Some (sample_clearance ''CC-1'' st (Some ''SINV-7'') [])" for st
    by (simp add: invoiced_world_def sample_world_def sample_clearance_def lookup_clearance_def)
  from invoice_cancel_resets_clearance [OF f [of "''Yellow''"] n l, where event = "''on_cancel''"]
       invoice_cancel_resets_clearance [OF f [of "''Risk Analysis''"] n l,
         where event = "''on_cancel''"]
  show ?thesis
    by (simp add: sample_clearance_def)
qed

text \<open>
  C8 as stated fails: a clearance without an invoice, in a world without the item
  \<open>Custom Clearance Service\<close>. No invoice is created; the call raises.
\<close>

theorem create_sales_invoice_without_service_item:
  "lookup_clearance (clearances no_item_world) ''CC-1''
      = Some (sample_clearance ''CC-1'' ''In Review'' None [])
   \<and> sales_invoice (sample_clearance ''CC-1'' ''In Review'' None []) = None
   \<and> create_sales_invoice no_item_world ''CC-1''
      = Inl (ValidationError
          ''Custom Clearance Service item not found. Please ensure it is created during app installation.'')"
  by (simp add: no_item_world_def sample_world_def sample_clearance_def lookup_clearance_def
      create_sales_invoice_def get_doc_def truthy_def)

text \<open>
  C8, amended. For a clearance that has an invoice the call raises the error
  \<open>Sales Invoice already created\<close> and writes nothing. For a clearance without one, when
  the service item exists, the call inserts one draft invoice for the clearance's customer
  with a single line of quantity 1 at the clearance's amount (zero when there is none),
  writes the invoice's name into the clearance and returns it; when the service item does
  not exist, the call raises and writes nothing.
\<close>

theorem create_sales_invoice_contract:
  assumes "lookup_clearance (clearances w) cn = Some c"
  shows "(truthy (sales_invoice c) \<longrightarrow>
            create_sales_invoice w cn = Inl (ValidationError ''Sales Invoice already created: {0}''))
       \<and> (\<not> truthy (sales_invoice c) \<and>
          find (\<lambda>i. item_code i = ''Custom Clearance Service'') (items w) = Some it \<and>
          item_name it \<noteq> [] \<longrightarrow>
            (\<exists>w'. create_sales_invoice w cn = Inr (next_invoice_name w, w') \<and>
               sales_invoices w' = sales_invoices w @
                 [\<lparr>si_name = next_invoice_name w, si_status = None, si_customer = customer c,
                   posting_date = today w, due_date = today w,
                   si_items = [\<lparr>ii_item_code = item_name it, qty = 1,
                                rate = (case amount c of None \<Rightarrow> 0 | Some a \<Rightarrow> a)\<rparr>],
                   custom_custom_clearance = (if has_custom_column w then Some cn else None),
                   docstatus = 0\<rparr>] \<and>
               lookup_clearance (clearances w') cn =
                 Some (c\<lparr>sales_invoice := Some (next_invoice_name w)\<rparr>)))
       \<and> (\<not> truthy (sales_invoice c) \<and>
          (find (\<lambda>i. item_code i = ''Custom Clearance Service'') (items w) = None \<or>
           find (\<lambda>i. item_code i = ''Custom Clearance Service'') (items w) = Some it \<and>
           item_name it = []) \<longrightarrow>
            create_sales_invoice w cn = Inl (ValidationError
              ''Custom Clearance Service item not found. Please ensure it is created during app installation.''))"
proof -
  have nm: "name c = cn"
    using assms by (rule lookup_name)
  have rate: "(case amount c of None \<Rightarrow> 0 | Some a \<Rightarrow> if a \<noteq> 0 then a else 0)
      = (case amount c of None \<Rightarrow> (0::real) | Some a \<Rightarrow> a)"
    by (simp split: option.splits)
  show ?thesis
    using assms
    by (auto simp: create_sales_invoice_def get_doc_def Let_def nm rate lookup_db_set_value)
qed

theorem create_sales_invoice_contract_witness:
  "create_sales_invoice (invoiced_world ''In Review'') ''CC-1''
     = Inl (ValidationError ''Sales Invoice already created: {0}'')
   \<and> (\<exists>w'. create_sales_invoice optional_rows_world ''CC-1'' = Inr (''SINV-0001'', w') \<and>
         sales_invoices w' =
           [\<lparr>si_name = ''SINV-0001'', si_status = None, si_customer = Some ''CUST-A'',
             posting_date = ''2026-01-15'', due_date = ''2026-01-15'',
             si_items = [\<lparr>ii_item_code = ''Custom Clearance Service'', qty = 1, rate = 250\<rparr>],
             custom_custom_clearance = Some ''CC-1'', docstatus = 0\<rparr>] \<and>
         map_option sales_invoice (lookup_clearance (clearances w') ''CC-1'')
           = Some (Some ''SINV-0001''))"
proof -
  have a: "lookup_clearance (clearances (invoiced_world ''In Review'')) ''CC-1''
      = Some (sample_clearance ''CC-1'' ''In Review'' (Some ''SINV-7'') [])"
    by (simp add: invoiced_world_def sample_world_def sample_clearance_def lookup_clearance_def)
  have b: "lookup_clearance (clearances optional_rows_world) ''CC-1''
      = Some (sample_clearance ''CC-1'' ''Document Submitting'' None
               [sample_row ''r1'' False ''In Review'' None])"
    by (simp add: optional_rows_world_def sample_world_def sample_clearance_def
        lookup_clearance_def)
  from create_sales_invoice_contract [OF a]
  have first: "create_sales_invoice (invoiced_world ''In Review'') ''CC-1''
     = Inl (ValidationError ''Sales Invoice already created: {0}'')"
    by (simp add: sample_clearance_def truthy_def)
  from create_sales_invoice_contract [OF b,
      of "\<lparr>item_name = ''Custom Clearance Service'', item_code = ''Custom Clearance Service''\<rparr>"]
  have second: "\<exists>w'. create_sales_invoice optional_rows_world ''CC-1'' = Inr (''SINV-0001'', w') \<and>
         sales_invoices w' =
           [\<lparr>si_name = ''SINV-0001'', si_status = None, si_customer = Some ''CUST-A'',
             posting_date = ''2026-01-15'', due_date = ''2026-01-15'',
             si_items = [\<lparr>ii_item_code = ''Custom Clearance Service'', qty = 1, rate = 250\<rparr>],
             custom_custom_clearance = Some ''CC-1'', docstatus = 0\<rparr>] \<and>
         map_option sales_invoice (lookup_clearance (clearances w') ''CC-1'')
           = Some (Some ''SINV-0001'')"
    by (simp add: optional_rows_world_def sample_world_def sample_clearance_def truthy_def) force
  from first second show ?thesis by simp
qed

text \<open>
  C9. A call of \<^verbatim>\<open>save_payment_info\<close> by a caller that passes the staff test, with
  payment type \<open>first\<close> or \<open>second\<close>, on a clearance that exists: whatever the
  collaborators of the notification do, the call returns success and the table holds the
  clearance with the payment fields merged; when the notification raises, the exception is
  appended to the error log and no notification is recorded.
\<close>

theorem save_payment_info_survives_notification:
  assumes user: "session_user w \<noteq> ''Guest''" and staff: "is_staff w"
    and pt: "payment_type = ''first'' \<or> payment_type = ''second''"
    and c: "lookup_clearance (clearances w) cn = Some c"
  shows "\<exists>w'. save_payment_info env w cn payment_type amt br acct cid =
                 Inr ((True, ''Payment information saved successfully''), w') \<and>
              clearances w' =
                db_update (clearances w)
                  (auto_promote (merge_payment_info c payment_type amt br acct cid)) \<and>
              lookup_clearance (clearances w') cn =
                Some (auto_promote (merge_payment_info c payment_type amt br acct cid)) \<and>
              (\<forall>e. create_notification env
                      (auto_promote (merge_payment_info c payment_type amt br acct cid))
                      cn payment_type = Inl e \<longrightarrow>
                   error_log w' = error_log w @
                     [(''Error creating notification: '' @ str_error e,
                       ''Payment Info Notification Error'')] \<and>
                   notification_logs w' = notification_logs w)"
proof -
  let ?doc = "merge_payment_info c payment_type amt br acct cid"
  have nm: "name c = cn"
    using c by (rule lookup_name)
  have sv: "save (clearances w) ?doc = Inr (auto_promote ?doc, db_update (clearances w) (auto_promote ?doc))"
    by (rule save_same_status [where before = c]) (simp_all add: nm c)
  have stored: "lookup_clearance (db_update (clearances w) (auto_promote ?doc)) cn
      = Some (auto_promote ?doc)"
    by (simp add: lookup_db_update nm c)
  show ?thesis
  proof (cases "create_notification env (auto_promote ?doc) cn payment_type")
    case (Inl e)
    with user staff pt c sv stored show ?thesis
      by (auto simp: save_payment_info_def get_doc_def Let_def)
  next
    case (Inr n)
    with user staff pt c sv stored show ?thesis
      by (cases n) (auto simp: save_payment_info_def get_doc_def Let_def)
  qed
qed

theorem save_payment_info_survives_notification_witness:
  "(\<exists>w'. save_payment_info failing_collaborators staff_world ''CC-1'' ''first''
            (Some 300) (Some ''Main Branch'') None None
          = Inr ((True, ''Payment information saved successfully''), w') \<and>
        map_option amount (lookup_clearance (clearances w') ''CC-1'') = Some (Some 300) \<and>
        map_option first_payment_branch (lookup_clearance (clearances w') ''CC-1'')
          = Some (Some ''Main Branch'') \<and>
        error_log w' = [(''Error creating notification: database is gone'',
                         ''Payment Info Notification Error'')] \<and>
        notification_logs w' = [])
   \<and> (\<exists>w'. save_payment_info working_collaborators staff_world ''CC-1'' ''first''
            (Some 300) (Some ''Main Branch'') None None
          = Inr ((True, ''Payment information saved successfully''), w') \<and>
        map_option amount (lookup_clearance (clearances w') ''CC-1'') = Some (Some 300) \<and>
        map_option first_payment_branch (lookup_clearance (clearances w') ''CC-1'')
          = Some (Some ''Main Branch''))"
proof -
  have user: "session_user staff_world \<noteq> ''Guest''"
    by (simp add: staff_world_def sample_world_def)
  have staff: "is_staff staff_world"
    by (simp add: staff_world_def sample_world_def is_staff_def)
  have pt: "''first'' = ''first'' \<or> ''first'' = ''second''"
    by simp
  have c: "lookup_clearance (clearances staff_world) ''CC-1''
      = Some (sample_clearance ''CC-1'' ''In Review'' None [])"
    by (simp add: staff_world_def sample_world_def sample_clearance_def lookup_clearance_def)
  have n: "create_notification failing_collaborators d ''CC-1'' ''first''
      = Inl (OtherException ''database is gone'')" for d
    by (simp add: create_notification_def customer_user_of_def failing_collaborators_def)
  from save_payment_info_survives_notification [OF user staff pt c,
      of failing_collaborators "Some 300" "Some ''Main Branch''" None None]
  have failing: "\<exists>w'. save_payment_info failing_collaborators staff_world ''CC-1'' ''first''
            (Some 300) (Some ''Main Branch'') None None
          = Inr ((True, ''Payment information saved successfully''), w') \<and>
        map_option amount (lookup_clearance (clearances w') ''CC-1'') = Some (Some 300) \<and>
        map_option first_payment_branch (lookup_clearance (clearances w') ''CC-1'')
          = Some (Some ''Main Branch'') \<and>
        error_log w' = [(''Error creating notification: database is gone'',
                         ''Payment Info Notification Error'')] \<and>
        notification_logs w' = []"
    by (auto simp: n merge_payment_info_first truthy_def truthy_num_def sample_clearance_def
        auto_promote_def staff_world_def sample_world_def)
  from save_payment_info_survives_notification [OF user staff pt c,
      of working_collaborators "Some 300" "Some ''Main Branch''" None None]
  have working: "\<exists>w'. save_payment_info working_collaborators staff_world ''CC-1'' ''first''
            (Some 300) (Some ''Main Branch'') None None
          = Inr ((True, ''Payment information saved successfully''), w') \<and>
        map_option amount (lookup_clearance (clearances w') ''CC-1'') = Some (Some 300) \<and>
        map_option first_payment_branch (lookup_clearance (clearances w') ''CC-1'')
          = Some (Some ''Main Branch'')"
    by (auto simp: merge_payment_info_first truthy_def truthy_num_def sample_clearance_def
        auto_promote_def)
  from failing working show ?thesis by simp
qed

end
